theory Spec2Isabelle
  imports Main "HOL-Library.AList" "HOL-Library.Sublist" "HOL-Library.Char_ord"
    "HOL-Library.List_Lexorder"
begin

section \<open>Text\<close>

text \<open>Python's \<^verbatim>\<open>s.startswith(p)\<close>, \<^verbatim>\<open>sub in s\<close> and \<^verbatim>\<open>sep.join(xs)\<close> on strings.\<close>

definition startswith :: "string \<Rightarrow> string \<Rightarrow> bool" where
  "startswith s p = prefix p s"

fun contains :: "string \<Rightarrow> string \<Rightarrow> bool" where
  "contains sub [] = (sub = [])"
| "contains sub (c # cs) = (prefix sub (c # cs) \<or> contains sub cs)"

fun join :: "string \<Rightarrow> string list \<Rightarrow> string" where
  "join sep [] = []"
| "join sep [x] = x"
| "join sep (x # y # ys) = x @ sep @ join sep (y # ys)"

text \<open>
  Splitting a flat key at every occurrence of a (non-empty) delimiter, left to right; \<open>cur\<close>
  holds the segment read so far, reversed.
\<close>

function split_on :: "string \<Rightarrow> string \<Rightarrow> string \<Rightarrow> string list" where
  "split_on sep cur [] = [rev cur]"
| "split_on sep cur (c # cs) =
     (if sep \<noteq> [] \<and> prefix sep (c # cs)
      then rev cur # split_on sep [] (drop (length sep) (c # cs))
      else split_on sep (c # cur) cs)"
  by pat_completeness auto
termination
  by (relation "measure (\<lambda>(sep, cur, s). length s)") auto

text \<open>Decimal integer text, as an environment variable or a dotenv line carries a number.\<close>

definition is_digit :: "char \<Rightarrow> bool" where
  "is_digit c = (48 \<le> (of_char c :: nat) \<and> (of_char c :: nat) \<le> 57)"

definition nat_of_digits :: "string \<Rightarrow> nat" where
  "nat_of_digits ds = foldl (\<lambda>a c. 10 * a + (of_char c - 48)) 0 ds"

definition int_of_text :: "string \<Rightarrow> int option" where
  "int_of_text s =
     (case s of
        [] \<Rightarrow> None
      | c # ds \<Rightarrow>
          if c = CHR ''-'' \<and> ds \<noteq> [] \<and> list_all is_digit ds then Some (- int (nat_of_digits ds))
          else if c = CHR ''+'' \<and> ds \<noteq> [] \<and> list_all is_digit ds then Some (int (nat_of_digits ds))
          else if list_all is_digit (c # ds) then Some (int (nat_of_digits (c # ds)))
          else None)"


section \<open>Raw configuration trees\<close>

text \<open>
  What a source hands to the loader: the object parsed from \<^verbatim>\<open>config.yaml\<close>, the keyword
  arguments of \<^verbatim>\<open>AppConfig(**yaml_config)\<close>, and the dictionary returned by
  \<^verbatim>\<open>model_dump(mode="json")\<close>.  A Python \<^verbatim>\<open>dict\<close> is an association list: the
  exporter iterates over \<^verbatim>\<open>items()\<close> in insertion order.
\<close>

datatype raw =
    RNull
  | RBool bool
  | RInt int
  | RStr string
  | RList "raw list"
  | RDict "(string \<times> raw) list"

type_synonym path = "string list"

fun is_leaf :: "raw \<Rightarrow> bool" where
  "is_leaf (RDict d) = False"
| "is_leaf v = True"

text \<open>The value found by following a path of keys, if every step exists.\<close>

fun lookup :: "raw \<Rightarrow> path \<Rightarrow> raw option" where
  "lookup t [] = Some t"
| "lookup (RDict d) (k # ks) = (case map_of d k of None \<Rightarrow> None | Some t \<Rightarrow> lookup t ks)"
| "lookup t (k # ks) = None"

text \<open>
  A tree says nothing about a path when following the path falls off a mapping that lacks the
  next key.  (A scalar sitting on a proper prefix of the path is not silence: it occupies the
  place.)
\<close>

fun missing :: "raw \<Rightarrow> path \<Rightarrow> bool" where
  "missing t [] = False"
| "missing (RDict d) (k # ks) = (case map_of d k of None \<Rightarrow> True | Some t \<Rightarrow> missing t ks)"
| "missing t (k # ks) = False"


section \<open>The precedence merger\<close>

text \<open>
  Modelled from the spec: the merge engine of the settings library (the code behind
  \<^verbatim>\<open>BaseSettings.__init__\<close>, which is not part of the repository's sources).  Section 4.3:
  "iterate priority levels from lowest to highest, recursively overlaying each level's tree onto
  the accumulator, where overlay at a leaf replaces the prior value and overlay at an internal
  node merges children key-wise".  \<open>overlay hi lo\<close> lays the tree \<open>hi\<close> over \<open>lo\<close>.
\<close>

fun overlay :: "raw \<Rightarrow> raw \<Rightarrow> raw"
  and overlay_children :: "(string \<times> raw) list \<Rightarrow> (string \<times> raw) list \<Rightarrow> (string \<times> raw) list"
where
  "overlay (RDict hs) (RDict ls) = RDict (overlay_children hs ls)"
| "overlay (RDict hs) RNull = RDict hs"
| "overlay (RDict hs) (RBool b) = RDict hs"
| "overlay (RDict hs) (RInt i) = RDict hs"
| "overlay (RDict hs) (RStr s) = RDict hs"
| "overlay (RDict hs) (RList xs) = RDict hs"
| "overlay RNull lo = RNull"
| "overlay (RBool b) lo = RBool b"
| "overlay (RInt i) lo = RInt i"
| "overlay (RStr s) lo = RStr s"
| "overlay (RList xs) lo = RList xs"
| "overlay_children [] ls = ls"
| "overlay_children ((k, v) # hs) ls =
     AList.update k (case map_of ls k of None \<Rightarrow> v | Some l \<Rightarrow> overlay v l)
       (overlay_children hs ls)"

text \<open>
  Modelled from the spec: the accumulation over the priority levels (section 4.3), lowest level
  first, so that the head of the list is overlaid last and wins.
\<close>

definition merge_sources :: "raw list \<Rightarrow> raw" where
  "merge_sources srcs = foldr overlay srcs (RDict [])"

text \<open>
  \<^verbatim>\<open>BaseConfigModel.settings_customise_sources\<close> (helpers/base.py): the tuple it returns,
  highest priority first.
\<close>

definition settings_customise_sources :: "'s \<Rightarrow> 's \<Rightarrow> 's \<Rightarrow> 's \<Rightarrow> 's list" where
  "settings_customise_sources init_settings env_settings dotenv_settings file_secret_settings =
     [file_secret_settings, env_settings, dotenv_settings, init_settings]"

text \<open>
  The value a list of sources, highest priority first, gives to a path: that of the first
  source that is not silent about it.
\<close>

fun first_supplier :: "raw list \<Rightarrow> path \<Rightarrow> raw option" where
  "first_supplier [] p = None"
| "first_supplier (s # ss) p = (if missing s p then first_supplier ss p else lookup s p)"


section \<open>The schema (config/models)\<close>

text \<open>
  Modelled from the spec: the redacting container of the validation library (\<^verbatim>\<open>SecretStr\<close>,
  whose class is not part of the repository's sources).  Section 4.5: default string conversion
  and default structured serialization "always emit a fixed mask token (ten \<^verbatim>\<open>*\<close> characters)
  regardless of underlying value length or content"; "an explicit, separately named accessor
  method returns the real underlying value".
\<close>

datatype SecretStr = SecretStr string


definition secret_mask :: string where
  "secret_mask = ''**********''"

definition str_SecretStr :: "SecretStr \<Rightarrow> string" where
  "str_SecretStr s = secret_mask"

text \<open>models/db.py\<close>

record DBPerfConfig =
  POOL_SIZE :: int
  WEB_CONCURRENCY :: int

record DBConfig =
  DB_NAME :: string
  SCHEMA_NAMES :: string
  USERNAME :: SecretStr
  PASSWORD :: SecretStr
  HOST :: string
  PORT :: int
  PERF :: DBPerfConfig

text \<open>models/aws.py\<close>

record AWSConfig =
  AWS_PROFILE :: "string option"
  AWS_ACCESS_KEY_ID :: "SecretStr option"
  AWS_SECRET_ACCESS_KEY :: "SecretStr option"
  AWS_DEFAULT_REGION :: string

text \<open>models/lookup_files.py\<close>

record LookupDataConfig =
  DATA_FILE_1 :: string

text \<open>models/logging.py\<close>

datatype LogLevel = CRITICAL | ERROR | WARNING | INFO | DEBUG

fun LogLevel_value :: "LogLevel \<Rightarrow> string" where
  "LogLevel_value CRITICAL = ''CRITICAL''"
| "LogLevel_value ERROR = ''ERROR''"
| "LogLevel_value WARNING = ''WARNING''"
| "LogLevel_value INFO = ''INFO''"
| "LogLevel_value DEBUG = ''DEBUG''"

record LoggingConfig =
  LOG_LEVEL :: LogLevel
  LOG_FORMAT :: string
  LOG_DATE_FORMAT :: string

text \<open>models/consolidated.py\<close>

record AppConfig =
  SERVICE_NAME :: string
  DB :: DBConfig
  AWS_CONFIG :: AWSConfig
  LOOKUP_DATA :: LookupDataConfig
  LOGGING :: LoggingConfig

text \<open>
  The defaults the model classes declare, as the lowest level of the merge (section 4.3 lists
  "schema defaults" as the last source).  An optional field's default \<^verbatim>\<open>None\<close> is the null
  leaf.
\<close>

definition schema_defaults :: raw where
  "schema_defaults = RDict
     [(''SERVICE_NAME'', RStr ''my_service_name''),
      (''DB'', RDict
         [(''DB_NAME'', RStr ''DBNAME''),
          (''SCHEMA_NAMES'', RStr ''SCHEMA''),
          (''USERNAME'', RStr ''DB_USERNAME''),
          (''PASSWORD'', RStr ''DB_PASS''),
          (''HOST'', RStr ''127.0.0.1''),
          (''PORT'', RInt 5432),
          (''PERF'', RDict [(''POOL_SIZE'', RInt 20), (''WEB_CONCURRENCY'', RInt 5)])]),
      (''AWS_CONFIG'', RDict
         [(''AWS_PROFILE'', RNull),
          (''AWS_ACCESS_KEY_ID'', RNull),
          (''AWS_SECRET_ACCESS_KEY'', RNull),
          (''AWS_DEFAULT_REGION'', RStr ''us-east-1'')]),
      (''LOOKUP_DATA'', RDict [(''DATA_FILE_1'', RStr ''pyproject.toml'')]),
      (''LOGGING'', RDict
         [(''LOG_LEVEL'', RStr ''INFO''),
          (''LOG_FORMAT'', RStr ''%(asctime)s - %(name)s - %(levelname)s - %(message)s''),
          (''LOG_DATE_FORMAT'', RStr ''%Y-%m-%d %H:%M:%S'')])]"

text \<open>The names \<^verbatim>\<open>AppConfig\<close> declares at its top level.\<close>

definition top_level_fields :: "string list" where
  "top_level_fields = [''SERVICE_NAME'', ''DB'', ''AWS_CONFIG'', ''LOOKUP_DATA'', ''LOGGING'']"


section \<open>The process and its surroundings\<close>

datatype fskind = Absent | RegularFile | Directory | OtherNode

datatype verr = VErr path string

datatype pyerr = OSError | YAMLError | TypeError | ValidationError "verr list"

text \<open>
  What the load reads and cannot control: the file system, the environment, the files' contents,
  and the two library calls whose results are taken as given (the YAML reader and Python's
  \<^verbatim>\<open>%\<close> formatting).
\<close>

record world =
  project_base_dir :: string
  path_kind :: "string \<Rightarrow> fskind"
  file_open :: "string \<Rightarrow> pyerr + string"
  yaml_load :: "string \<Rightarrow> pyerr + raw"
  environ :: "(string \<times> string) list"
  dotenv_values :: "string \<Rightarrow> (string \<times> string) list"
  secret_files :: "string \<Rightarrow> (string \<times> string) list"
  expanduser :: "string \<Rightarrow> string"
  resolve :: "string \<Rightarrow> string"
  percent_format_error :: "string \<Rightarrow> string option"

definition path_exists :: "world \<Rightarrow> string \<Rightarrow> bool" where
  "path_exists w p = (path_kind w p \<noteq> Absent)"

definition is_file :: "world \<Rightarrow> string \<Rightarrow> bool" where
  "is_file w p = (path_kind w p = RegularFile)"

definition is_dir :: "world \<Rightarrow> string \<Rightarrow> bool" where
  "is_dir w p = (path_kind w p = Directory)"

text \<open>
  \<^verbatim>\<open>str(Path(base, name))\<close>: an absolute second segment replaces the first, an empty segment
  adds nothing, and no separator is put after a base that ends in one (the root directory).
\<close>

definition path_join :: "string \<Rightarrow> string \<Rightarrow> string" where
  "path_join base name =
     (if startswith name ''/'' then name
      else if name = [] then base
      else if base = [] then name
      else if last base = CHR ''/'' then base @ name
      else base @ ''/'' @ name)"

text \<open>helpers/base.py: the tracked sources and the settings of the base class.\<close>

record ConfigSource =
  source_type :: string
  path :: string
  available :: bool
  description :: string

record pystate =
  config_sources :: "ConfigSource list"
  next_id :: nat
  cache :: "(nat \<times> AppConfig) option"

definition get_config_sources :: "pystate \<Rightarrow> ConfigSource list" where
  "get_config_sources s = config_sources s"

definition track_config_source :: "string \<Rightarrow> string \<Rightarrow> bool \<Rightarrow> string \<Rightarrow> pystate \<Rightarrow> pystate" where
  "track_config_source st p av d s =
     s\<lparr>config_sources := config_sources s @
         [\<lparr>source_type = st, path = p, available = av, description = d\<rparr>]\<rparr>"

definition clear_config_sources :: "pystate \<Rightarrow> pystate" where
  "clear_config_sources s = s\<lparr>config_sources := []\<rparr>"

definition PATH_ENV :: "world \<Rightarrow> string" where
  "PATH_ENV w = path_join (project_base_dir w) ''.env''"

datatype extra_mode = Forbid | Ignore

datatype env_file_setting = EnvFileNone | EnvFileOne string | EnvFileMany "string list"

record settings_config =
  case_sensitive :: bool
  arbitrary_types_allowed :: bool
  env_nested_delimiter :: string
  extra :: extra_mode
  env_file :: env_file_setting
  secrets_dir :: "string option"

definition DEFAULT_CONFIG_SETTINGS :: "world \<Rightarrow> settings_config" where
  "DEFAULT_CONFIG_SETTINGS w =
     \<lparr>case_sensitive = True, arbitrary_types_allowed = False, env_nested_delimiter = ''__'',
      extra = Forbid, env_file = EnvFileMany [PATH_ENV w], secrets_dir = Some ''/run/secrets''\<rparr>"

text \<open>
  A section model (\<^verbatim>\<open>DBConfig\<close>, \<^verbatim>\<open>AWSConfig\<close>, \<^verbatim>\<open>LoggingConfig\<close>, ...) derives from the
  library's plain \<^verbatim>\<open>BaseModel\<close> and sets no configuration of its own, so it has the library's
  default treatment of extra keys, which is to ignore them; only \<^verbatim>\<open>BaseConfigModel\<close> is given
  \<open>DEFAULT_CONFIG_SETTINGS\<close>.
\<close>

definition section_extra :: extra_mode where
  "section_extra = Ignore"

definition env_files :: "settings_config \<Rightarrow> string list" where
  "env_files cfg =
     (case env_file cfg of EnvFileNone \<Rightarrow> [] | EnvFileOne f \<Rightarrow> [f] | EnvFileMany fs \<Rightarrow> fs)"

definition secrets_dir_path :: "settings_config \<Rightarrow> string" where
  "secrets_dir_path cfg = (case secrets_dir cfg of None \<Rightarrow> ''/run/secrets'' | Some d \<Rightarrow> d)"

fun track_env_files :: "world \<Rightarrow> string list \<Rightarrow> pystate \<Rightarrow> pystate" where
  "track_env_files w [] s = s"
| "track_env_files w (f # fs) s =
     track_env_files w fs
       (track_config_source ''dotenv'' f (path_exists w f \<and> is_file w f) (''Dotenv file: '' @ f) s)"

definition track_all_sources :: "world \<Rightarrow> settings_config \<Rightarrow> pystate \<Rightarrow> pystate" where
  "track_all_sources w cfg s =
     (let d = secrets_dir_path cfg;
          s1 = track_config_source ''secrets'' d (path_exists w d \<and> is_dir w d)
                 (''Docker secrets directory: '' @ d) s;
          s2 = track_config_source ''environment'' ''system environment'' True
                 ''System environment variables'' s1
      in track_env_files w (env_files cfg) s2)"


section \<open>Flat sources and the key normalizer\<close>

text \<open>
  Modelled from the spec: the readers of the flat sources and the \<^verbatim>\<open>unflatten\<close> direction of
  the key normalizer (settings-library code, not part of the repository's sources).  Sections 4.1,
  4.2 and 6: the dotenv and secret-file readers "treat each line / each filename within a
  directory as one flat logical key"; nested keys are written \<^verbatim>\<open>SECTION__SUBSECTION__FIELD\<close>
  with the fixed delimiter; keys match in exact case; an absent source contributes an empty tree.
  The environment reader alone "does not enumerate all possible keys up front -- the schema
  drives which environment variables are actually looked up": \<open>read_flat\<close> keeps the variables
  that belong to a declared top-level field.
\<close>

fun insert_path :: "path \<Rightarrow> raw \<Rightarrow> raw \<Rightarrow> raw" where
  "insert_path [] v t = v"
| "insert_path (k # ks) v t =
     (let d = (case t of RDict d \<Rightarrow> d | _ \<Rightarrow> [])
      in RDict (AList.update k
           (insert_path ks v (case map_of d k of None \<Rightarrow> RDict [] | Some c \<Rightarrow> c)) d))"

definition explode_key :: "settings_config \<Rightarrow> string \<Rightarrow> path" where
  "explode_key cfg k = split_on (env_nested_delimiter cfg) [] k"

definition unflatten :: "settings_config \<Rightarrow> (string \<times> string) list \<Rightarrow> raw" where
  "unflatten cfg kvs = foldr (\<lambda>(k, v) t. insert_path (explode_key cfg k) (RStr v) t) kvs (RDict [])"

definition read_flat :: "settings_config \<Rightarrow> (string \<times> string) list \<Rightarrow> raw" where
  "read_flat cfg kvs =
     (case unflatten cfg kvs of
        RDict d \<Rightarrow> RDict (filter (\<lambda>(k, v). k \<in> set top_level_fields) d)
      | _ \<Rightarrow> RDict [])"

definition env_settings :: "world \<Rightarrow> settings_config \<Rightarrow> raw" where
  "env_settings w cfg = read_flat cfg (environ w)"

definition dotenv_settings :: "world \<Rightarrow> settings_config \<Rightarrow> raw" where
  "dotenv_settings w cfg =
     unflatten cfg (concat (map (\<lambda>f. if is_file w f then dotenv_values w f else [])
                                 (rev (env_files cfg))))"

definition file_secret_settings :: "world \<Rightarrow> settings_config \<Rightarrow> raw" where
  "file_secret_settings w cfg =
     unflatten cfg (if is_dir w (secrets_dir_path cfg) then secret_files w (secrets_dir_path cfg)
                    else [])"


section \<open>Validation\<close>

text \<open>
  Modelled from the spec: the validation engine (library code, not part of the repository's
  sources).  Section 4.4: for each declared field, look the key up in the merged tree, coerce it
  to the declared type, "raising per-field errors that are all collected rather than failing on
  the first", run the field's custom validators, then "whole-object cross-field invariants after
  individual fields validate"; a key the schema does not declare is an error where the model is
  strict.  What each class declares (fields, types, aliases, validators) is taken from
  config/models.
\<close>

type_synonym 'a validated = "verr list + 'a"

fun ap :: "('a \<Rightarrow> 'b) validated \<Rightarrow> 'a validated \<Rightarrow> 'b validated" where
  "ap (Inr f) (Inr x) = Inr (f x)"
| "ap (Inr f) (Inl e) = Inl e"
| "ap (Inl e) (Inr x) = Inl e"
| "ap (Inl e) (Inl e') = Inl (e @ e')"

fun alias_choices :: "(string \<times> raw) list \<Rightarrow> string list \<Rightarrow> raw option" where
  "alias_choices d [] = None"
| "alias_choices d (a # as) = (case map_of d a of None \<Rightarrow> alias_choices d as | Some v \<Rightarrow> Some v)"

definition field :: "(string \<times> raw) list \<Rightarrow> path \<Rightarrow> string list \<Rightarrow> (path \<Rightarrow> raw \<Rightarrow> 'a validated)
    \<Rightarrow> 'a validated" where
  "field d loc names val =
     (case alias_choices d names of
        None \<Rightarrow> Inl [VErr (loc @ take 1 names) ''Field required'']
      | Some v \<Rightarrow> val (loc @ take 1 names) v)"

definition extra_errors :: "extra_mode \<Rightarrow> path \<Rightarrow> string list \<Rightarrow> (string \<times> raw) list \<Rightarrow> verr list" where
  "extra_errors mode loc declared d =
     (case mode of
        Ignore \<Rightarrow> []
      | Forbid \<Rightarrow> map (\<lambda>(k, v). VErr (loc @ [k]) ''Extra inputs are not permitted'')
                   (filter (\<lambda>(k, v). k \<notin> set declared) d))"

definition with_extra :: "verr list \<Rightarrow> 'a validated \<Rightarrow> 'a validated" where
  "with_extra errs r =
     (case r of Inl e \<Rightarrow> Inl (e @ errs) | Inr x \<Rightarrow> if errs = [] then Inr x else Inl errs)"

definition as_model :: "(path \<Rightarrow> (string \<times> raw) list \<Rightarrow> 'a validated) \<Rightarrow> path \<Rightarrow> raw \<Rightarrow> 'a validated" where
  "as_model val loc v =
     (case v of
        RDict d \<Rightarrow> val loc d
      | _ \<Rightarrow> Inl [VErr loc ''Input should be a valid dictionary or instance''])"

definition validate_str :: "path \<Rightarrow> raw \<Rightarrow> string validated" where
  "validate_str loc v =
     (case v of RStr s \<Rightarrow> Inr s | _ \<Rightarrow> Inl [VErr loc ''Input should be a valid string''])"

definition validate_int :: "path \<Rightarrow> raw \<Rightarrow> int validated" where
  "validate_int loc v =
     (case v of
        RInt i \<Rightarrow> Inr i
      | RStr s \<Rightarrow> (case int_of_text s of
                     Some i \<Rightarrow> Inr i
                   | None \<Rightarrow> Inl [VErr loc ''Input should be a valid integer''])
      | _ \<Rightarrow> Inl [VErr loc ''Input should be a valid integer''])"

definition validate_secret :: "path \<Rightarrow> raw \<Rightarrow> SecretStr validated" where
  "validate_secret loc v =
     (case v of RStr s \<Rightarrow> Inr (SecretStr s) | _ \<Rightarrow> Inl [VErr loc ''Input should be a valid string''])"

definition validate_optional :: "(path \<Rightarrow> raw \<Rightarrow> 'a validated) \<Rightarrow> path \<Rightarrow> raw \<Rightarrow> 'a option validated" where
  "validate_optional val loc v =
     (case v of RNull \<Rightarrow> Inr None | _ \<Rightarrow> map_sum id Some (val loc v))"

text \<open>models/db.py\<close>

definition validate_DBPerfConfig :: "path \<Rightarrow> (string \<times> raw) list \<Rightarrow> DBPerfConfig validated" where
  "validate_DBPerfConfig loc d =
     with_extra (extra_errors section_extra loc [''POOL_SIZE'', ''WEB_CONCURRENCY''] d)
       (ap (ap (Inr (\<lambda>x1 x2. \<lparr>POOL_SIZE = x1, WEB_CONCURRENCY = x2\<rparr>))
          (field d loc [''POOL_SIZE''] validate_int))
          (field d loc [''WEB_CONCURRENCY''] validate_int))"

definition validate_DBConfig :: "path \<Rightarrow> (string \<times> raw) list \<Rightarrow> DBConfig validated" where
  "validate_DBConfig loc d =
     with_extra (extra_errors section_extra loc
         [''DB_NAME'', ''SCHEMA_NAMES'', ''USERNAME'', ''PASSWORD'', ''HOST'', ''PORT'', ''PERF''] d)
       (ap (ap (ap (ap (ap (ap (ap
          (Inr (\<lambda>x1 x2 x3 x4 x5 x6 x7.
                  \<lparr>DB_NAME = x1, SCHEMA_NAMES = x2, USERNAME = x3, PASSWORD = x4,
                   HOST = x5, PORT = x6, PERF = x7\<rparr>))
          (field d loc [''DB_NAME''] validate_str))
          (field d loc [''SCHEMA_NAMES''] validate_str))
          (field d loc [''USERNAME''] validate_secret))
          (field d loc [''PASSWORD''] validate_secret))
          (field d loc [''HOST''] validate_str))
          (field d loc [''PORT''] validate_int))
          (field d loc [''PERF''] (as_model validate_DBPerfConfig)))"

text \<open>models/aws.py: \<^verbatim>\<open>AWSConfig.validate_auth_config\<close>, run after the fields.\<close>

definition validate_auth_config :: "AWSConfig \<Rightarrow> string + AWSConfig" where
  "validate_auth_config self =
     (let has_profile = (AWS_PROFILE self \<noteq> None);
          has_access_keys = (AWS_ACCESS_KEY_ID self \<noteq> None \<and> AWS_SECRET_ACCESS_KEY self \<noteq> None)
      in if \<not> has_profile \<and> \<not> has_access_keys
         then Inl ''Either AWS_PROFILE or both AWS_ACCESS_KEY_ID and AWS_SECRET_ACCESS_KEY must be provided''
         else Inr self)"

definition validate_AWSConfig :: "path \<Rightarrow> (string \<times> raw) list \<Rightarrow> AWSConfig validated" where
  "validate_AWSConfig loc d =
     (case with_extra (extra_errors section_extra loc
              [''AWS__AWS_PROFILE'', ''AWS_PROFILE'', ''AWS__AWS_ACCESS_KEY_ID'', ''AWS_ACCESS_KEY_ID'',
               ''AWS__AWS_SECRET_ACCESS_KEY'', ''AWS_SECRET_ACCESS_KEY'', ''AWS_DEFAULT_REGION''] d)
            (ap (ap (ap (ap
               (Inr (\<lambda>x1 x2 x3 x4. \<lparr>AWS_PROFILE = x1, AWS_ACCESS_KEY_ID = x2,
                                     AWS_SECRET_ACCESS_KEY = x3, AWS_DEFAULT_REGION = x4\<rparr>))
               (field d loc [''AWS__AWS_PROFILE'', ''AWS_PROFILE''] (validate_optional validate_str)))
               (field d loc [''AWS__AWS_ACCESS_KEY_ID'', ''AWS_ACCESS_KEY_ID'']
                  (validate_optional validate_secret)))
               (field d loc [''AWS__AWS_SECRET_ACCESS_KEY'', ''AWS_SECRET_ACCESS_KEY'']
                  (validate_optional validate_secret)))
               (field d loc [''AWS_DEFAULT_REGION''] validate_str))
      of Inl e \<Rightarrow> Inl e
       | Inr self \<Rightarrow> (case validate_auth_config self of
                        Inl msg \<Rightarrow> Inl [VErr loc (''Value error, '' @ msg)]
                      | Inr self' \<Rightarrow> Inr self'))"


text \<open>
  helpers/base.py: \<^verbatim>\<open>convert_to_absolute_path\<close> and \<^verbatim>\<open>assert_file_exists\<close>, the two
  validators of \<^verbatim>\<open>RequiredFile\<close>; the conversion runs first.
\<close>

definition convert_to_absolute_path :: "world \<Rightarrow> string \<Rightarrow> string" where
  "convert_to_absolute_path w p =
     (let x = expanduser w p;
          x' = (if \<not> startswith x ''/'' then path_join (project_base_dir w) p else x)
      in resolve w x')"

definition assert_file_exists :: "world \<Rightarrow> string \<Rightarrow> string + string" where
  "assert_file_exists w p =
     (if is_file w p \<and> path_exists w p then Inr p else Inl ''File not found at path'')"

definition validate_RequiredFile :: "world \<Rightarrow> path \<Rightarrow> raw \<Rightarrow> string validated" where
  "validate_RequiredFile w loc v =
     (case v of
        RStr s \<Rightarrow> (case assert_file_exists w (convert_to_absolute_path w s) of
                     Inl msg \<Rightarrow> Inl [VErr loc (''Assertion failed, '' @ msg)]
                   | Inr p \<Rightarrow> Inr p)
      | _ \<Rightarrow> Inl [VErr loc ''Input is not a valid path''])"

text \<open>models/lookup_files.py\<close>

definition validate_LookupDataConfig :: "world \<Rightarrow> path \<Rightarrow> (string \<times> raw) list
    \<Rightarrow> LookupDataConfig validated" where
  "validate_LookupDataConfig w loc d =
     with_extra (extra_errors section_extra loc [''DATA_FILE_1''] d)
       (ap (Inr (\<lambda>x1. \<lparr>DATA_FILE_1 = x1\<rparr>)) (field d loc [''DATA_FILE_1''] (validate_RequiredFile w)))"

text \<open>models/logging.py: \<^verbatim>\<open>LoggingConfig.validate_format_string\<close>.\<close>

definition validate_format_string :: "world \<Rightarrow> string \<Rightarrow> string + string" where
  "validate_format_string w v =
     (if list_ex (\<lambda>dangerous. contains dangerous v) [''%{'', ''%('', '')'', ''{'']
      then (case percent_format_error w v of
              Some e \<Rightarrow> Inl (''Invalid log format string: '' @ e)
            | None \<Rightarrow> Inr v)
      else Inr v)"

definition validate_LogLevel :: "path \<Rightarrow> raw \<Rightarrow> LogLevel validated" where
  "validate_LogLevel loc v =
     (case v of
        RStr s \<Rightarrow>
          (case filter (\<lambda>l. LogLevel_value l = s) [CRITICAL, ERROR, WARNING, INFO, DEBUG] of
             l # ls \<Rightarrow> Inr l
           | [] \<Rightarrow> Inl [VErr loc ''Input should be CRITICAL, ERROR, WARNING, INFO or DEBUG''])
      | _ \<Rightarrow> Inl [VErr loc ''Input should be CRITICAL, ERROR, WARNING, INFO or DEBUG''])"

definition validate_LOG_FORMAT :: "world \<Rightarrow> path \<Rightarrow> raw \<Rightarrow> string validated" where
  "validate_LOG_FORMAT w loc v =
     (case validate_str loc v of
        Inl e \<Rightarrow> Inl e
      | Inr s \<Rightarrow>
          if length s < 1 then Inl [VErr loc ''String should have at least 1 character'']
          else (case validate_format_string w s of
                  Inl msg \<Rightarrow> Inl [VErr loc (''Value error, '' @ msg)]
                | Inr s' \<Rightarrow> Inr s'))"

definition validate_LoggingConfig :: "world \<Rightarrow> path \<Rightarrow> (string \<times> raw) list \<Rightarrow> LoggingConfig validated" where
  "validate_LoggingConfig w loc d =
     with_extra (extra_errors section_extra loc [''LOG_LEVEL'', ''LOG_FORMAT'', ''LOG_DATE_FORMAT''] d)
       (ap (ap (ap (Inr (\<lambda>x1 x2 x3. \<lparr>LOG_LEVEL = x1, LOG_FORMAT = x2, LOG_DATE_FORMAT = x3\<rparr>))
          (field d loc [''LOG_LEVEL''] validate_LogLevel))
          (field d loc [''LOG_FORMAT''] (validate_LOG_FORMAT w)))
          (field d loc [''LOG_DATE_FORMAT''] validate_str))"

text \<open>models/consolidated.py, with the settings of \<^verbatim>\<open>BaseConfigModel\<close>.\<close>

definition validate_AppConfig :: "world \<Rightarrow> settings_config \<Rightarrow> (string \<times> raw) list \<Rightarrow> AppConfig validated" where
  "validate_AppConfig w cfg d =
     with_extra (extra_errors (extra cfg) [] top_level_fields d)
       (ap (ap (ap (ap (ap
          (Inr (\<lambda>x1 x2 x3 x4 x5. \<lparr>SERVICE_NAME = x1, DB = x2, AWS_CONFIG = x3,
                                    LOOKUP_DATA = x4, LOGGING = x5\<rparr>))
          (field d [] [''SERVICE_NAME''] validate_str))
          (field d [] [''DB''] (as_model validate_DBConfig)))
          (field d [] [''AWS_CONFIG''] (as_model validate_AWSConfig)))
          (field d [] [''LOOKUP_DATA''] (as_model (validate_LookupDataConfig w))))
          (field d [] [''LOGGING''] (as_model (validate_LoggingConfig w))))"


section \<open>Building the configuration\<close>

text \<open>
  Modelled from the spec: the constructor of the settings base class (library code, not part of
  the repository's sources), which asks \<open>settings_customise_sources\<close> for the order of the
  sources, merges them over the schema defaults (section 4.3) and validates the merged tree
  (section 4.4).  The keyword arguments of the constructor are the \<^verbatim>\<open>init_settings\<close> source.
\<close>

definition build_values :: "world \<Rightarrow> settings_config \<Rightarrow> (string \<times> raw) list \<Rightarrow> raw" where
  "build_values w cfg kw =
     merge_sources
       (settings_customise_sources (RDict kw) (env_settings w cfg) (dotenv_settings w cfg)
          (file_secret_settings w cfg) @ [schema_defaults])"

definition BaseSettings_init :: "world \<Rightarrow> settings_config \<Rightarrow> (string \<times> raw) list \<Rightarrow> pyerr + AppConfig" where
  "BaseSettings_init w cfg kw =
     (case as_model (\<lambda>loc. validate_AppConfig w cfg) [] (build_values w cfg kw) of
        Inl errs \<Rightarrow> Inl (ValidationError errs)
      | Inr c \<Rightarrow> Inr c)"

text \<open>
  helpers/base.py: \<^verbatim>\<open>BaseConfigModel.__init__\<close> tracks the sources, then calls the parent
  constructor.  A constructed object carries a fresh number, which is its identity.
\<close>

type_synonym config_object = "nat \<times> AppConfig"

definition BaseConfigModel_init :: "world \<Rightarrow> (string \<times> raw) list \<Rightarrow> pystate
    \<Rightarrow> (pyerr + config_object) \<times> pystate" where
  "BaseConfigModel_init w kw s =
     (let cfg = DEFAULT_CONFIG_SETTINGS w;
          s1 = track_all_sources w cfg s
      in case BaseSettings_init w cfg kw of
           Inl e \<Rightarrow> (Inl e, s1)
         | Inr c \<Rightarrow> (Inr (next_id s1, c), s1\<lparr>next_id := Suc (next_id s1)\<rparr>))"

text \<open>helpers/config_parser.py; the YAML reader itself belongs to the surroundings.\<close>

definition parse_yaml_raw_as_dict :: "world \<Rightarrow> string \<Rightarrow> pyerr + raw" where
  "parse_yaml_raw_as_dict w stream = yaml_load w stream"

definition parse_yaml_file_as_dict :: "world \<Rightarrow> string \<Rightarrow> pyerr + raw" where
  "parse_yaml_file_as_dict w file =
     (case file_open w (resolve w file) of
        Inl e \<Rightarrow> Inl e
      | Inr f \<Rightarrow> parse_yaml_raw_as_dict w f)"

text \<open>
  config/__init__.py: \<^verbatim>\<open>load_config_yaml\<close> and \<^verbatim>\<open>get_config\<close>.  Python's \<^verbatim>\<open>None\<close> is the
  null leaf.  Setting up logging and printing the report of the tracked sources write to the
  log only and leave the state as it is.
\<close>

definition load_config_yaml :: "world \<Rightarrow> string \<Rightarrow> pystate \<Rightarrow> raw \<times> pystate" where
  "load_config_yaml w filename s =
     (let path_config = path_join (project_base_dir w) filename;
          s1 = track_config_source ''yaml'' path_config
                 (path_exists w path_config \<and> is_file w path_config)
                 (''YAML configuration file: '' @ filename) s
      in if \<not> path_exists w path_config then (RNull, s1)
         else (case parse_yaml_file_as_dict w path_config of
                 Inr config_dict \<Rightarrow> (config_dict, s1)
               | Inl e \<Rightarrow> (RNull, s1)))"

definition get_config_body :: "world \<Rightarrow> pystate \<Rightarrow> (pyerr + config_object) \<times> pystate" where
  "get_config_body w s =
     (let s1 = clear_config_sources s;
          (yaml_config, s2) = load_config_yaml w ''config.yaml'' s1;
          yaml_config' = (if yaml_config = RNull then RDict [] else yaml_config)
      in case yaml_config' of
           RDict kw \<Rightarrow> BaseConfigModel_init w kw s2
         | _ \<Rightarrow> (Inl TypeError, s2))"

text \<open>
  \<^verbatim>\<open>functools.lru_cache(maxsize=None)\<close> around a function of no argument: the first call that
  returns stores the returned object, a call that raises stores nothing, and every later call
  returns the stored object without running the body.
\<close>

definition get_config :: "world \<Rightarrow> pystate \<Rightarrow> (pyerr + config_object) \<times> pystate" where
  "get_config w s =
     (case cache s of
        Some r \<Rightarrow> (Inr r, s)
      | None \<Rightarrow> (case get_config_body w s of
                   (Inl e, s') \<Rightarrow> (Inl e, s')
                 | (Inr r, s') \<Rightarrow> (Inr r, s'\<lparr>cache := Some r\<rparr>)))"

definition cache_clear :: "pystate \<Rightarrow> pystate" where
  "cache_clear s = s\<lparr>cache := None\<rparr>"


section \<open>Serialization and export\<close>

text \<open>
  Modelled from the spec: \<^verbatim>\<open>model_dump(mode="json")\<close> of the validation library (not part of
  the repository's sources) on the classes of config/models, fields in declaration order.
  Section 4.5: default structured serialization of a wrapped secret emits the mask, also inside
  nested objects.  An enumeration member is dumped as its value and \<^verbatim>\<open>None\<close> as null.
\<close>

definition dump_secret :: "SecretStr \<Rightarrow> raw" where
  "dump_secret s = RStr (str_SecretStr s)"

definition dump_optional :: "('a \<Rightarrow> raw) \<Rightarrow> 'a option \<Rightarrow> raw" where
  "dump_optional f v = (case v of None \<Rightarrow> RNull | Some x \<Rightarrow> f x)"

definition dump_DBPerfConfig :: "DBPerfConfig \<Rightarrow> raw" where
  "dump_DBPerfConfig c =
     RDict [(''POOL_SIZE'', RInt (POOL_SIZE c)), (''WEB_CONCURRENCY'', RInt (WEB_CONCURRENCY c))]"

definition dump_DBConfig :: "DBConfig \<Rightarrow> raw" where
  "dump_DBConfig c = RDict
     [(''DB_NAME'', RStr (DB_NAME c)),
      (''SCHEMA_NAMES'', RStr (SCHEMA_NAMES c)),
      (''USERNAME'', dump_secret (USERNAME c)),
      (''PASSWORD'', dump_secret (PASSWORD c)),
      (''HOST'', RStr (HOST c)),
      (''PORT'', RInt (PORT c)),
      (''PERF'', dump_DBPerfConfig (PERF c))]"

definition dump_AWSConfig :: "AWSConfig \<Rightarrow> raw" where
  "dump_AWSConfig c = RDict
     [(''AWS_PROFILE'', dump_optional RStr (AWS_PROFILE c)),
      (''AWS_ACCESS_KEY_ID'', dump_optional dump_secret (AWS_ACCESS_KEY_ID c)),
      (''AWS_SECRET_ACCESS_KEY'', dump_optional dump_secret (AWS_SECRET_ACCESS_KEY c)),
      (''AWS_DEFAULT_REGION'', RStr (AWS_DEFAULT_REGION c))]"

definition dump_LookupDataConfig :: "LookupDataConfig \<Rightarrow> raw" where
  "dump_LookupDataConfig c = RDict [(''DATA_FILE_1'', RStr (DATA_FILE_1 c))]"

definition dump_LoggingConfig :: "LoggingConfig \<Rightarrow> raw" where
  "dump_LoggingConfig c = RDict
     [(''LOG_LEVEL'', RStr (LogLevel_value (LOG_LEVEL c))),
      (''LOG_FORMAT'', RStr (LOG_FORMAT c)),
      (''LOG_DATE_FORMAT'', RStr (LOG_DATE_FORMAT c))]"

definition model_dump_json :: "AppConfig \<Rightarrow> (string \<times> raw) list" where
  "model_dump_json c =
     [(''SERVICE_NAME'', RStr (SERVICE_NAME c)),
      (''DB'', dump_DBConfig (DB c)),
      (''AWS_CONFIG'', dump_AWSConfig (AWS_CONFIG c)),
      (''LOOKUP_DATA'', dump_LookupDataConfig (LOOKUP_DATA c)),
      (''LOGGING'', dump_LoggingConfig (LOGGING c))]"

text \<open>
  helpers/config_exporter.py.  \<^verbatim>\<open>dict(items)\<close> keeps the place of a key's first occurrence and
  the value of its last.
\<close>

definition dict_of_items :: "(string \<times> string) list \<Rightarrow> (string \<times> string) list" where
  "dict_of_items items = foldl (\<lambda>acc (k, v). AList.update k v acc) [] items"

definition new_key_of :: "string \<Rightarrow> string \<Rightarrow> string \<Rightarrow> string" where
  "new_key_of parent_key sep key = (if parent_key \<noteq> [] then parent_key @ sep @ key else key)"

text \<open>
  The list \<^verbatim>\<open>items\<close> that \<^verbatim>\<open>_flatten_config_dict\<close> collects.  The recursive call passes only
  \<^verbatim>\<open>sep\<close>, so a nested mapping is flattened with the default null text and with secret
  skipping on.  \<open>str_of\<close> is Python's \<^verbatim>\<open>str\<close>.
\<close>

fun flatten_items :: "(raw \<Rightarrow> string) \<Rightarrow> (string \<times> raw) list \<Rightarrow> string \<Rightarrow> string \<Rightarrow> string
    \<Rightarrow> bool \<Rightarrow> (string \<times> string) list" where
  "flatten_items str_of [] parent_key sep null_value skip_secret_values = []"
| "flatten_items str_of ((key, RDict d) # rest) parent_key sep null_value skip_secret_values =
     dict_of_items (flatten_items str_of d (new_key_of parent_key sep key) sep ''None'' True)
     @ flatten_items str_of rest parent_key sep null_value skip_secret_values"
| "flatten_items str_of ((key, RList xs) # rest) parent_key sep null_value skip_secret_values =
     (new_key_of parent_key sep key, join '','' (map str_of xs))
     # flatten_items str_of rest parent_key sep null_value skip_secret_values"
| "flatten_items str_of ((key, RNull) # rest) parent_key sep null_value skip_secret_values =
     (new_key_of parent_key sep key, null_value)
     # flatten_items str_of rest parent_key sep null_value skip_secret_values"
| "flatten_items str_of ((key, RBool b) # rest) parent_key sep null_value skip_secret_values =
     (new_key_of parent_key sep key, if b then ''true'' else ''false'')
     # flatten_items str_of rest parent_key sep null_value skip_secret_values"
| "flatten_items str_of ((key, RStr s) # rest) parent_key sep null_value skip_secret_values =
     (if startswith s ''********'' \<and> skip_secret_values then []
      else [(new_key_of parent_key sep key, s)])
     @ flatten_items str_of rest parent_key sep null_value skip_secret_values"
| "flatten_items str_of ((key, RInt i) # rest) parent_key sep null_value skip_secret_values =
     (new_key_of parent_key sep key, str_of (RInt i))
     # flatten_items str_of rest parent_key sep null_value skip_secret_values"

definition flatten_config_dict :: "(raw \<Rightarrow> string) \<Rightarrow> (string \<times> raw) list \<Rightarrow> string \<Rightarrow> string
    \<Rightarrow> string \<Rightarrow> bool \<Rightarrow> (string \<times> string) list" where
  "flatten_config_dict str_of config_dict parent_key sep null_value skip_secret_values =
     dict_of_items (flatten_items str_of config_dict parent_key sep null_value skip_secret_values)"

definition dotenv_line :: "string \<times> string \<Rightarrow> string" where
  "dotenv_line kv =
     (case kv of (key, value) \<Rightarrow>
        if contains '' '' value then key @ ''='' @ [CHR 0x27] @ value @ [CHR 0x27, CHR 0x0A]
        else key @ ''='' @ value @ [CHR 0x0A])"

text \<open>What \<^verbatim>\<open>dump_config_to_dotenv\<close> and \<^verbatim>\<open>dump_config_to_yaml\<close> write for a configuration.\<close>

definition dotenv_entries :: "(raw \<Rightarrow> string) \<Rightarrow> AppConfig \<Rightarrow> (string \<times> string) list" where
  "dotenv_entries str_of config =
     sort_key fst (flatten_config_dict str_of (model_dump_json config) [] ''__'' ''None'' True)"

definition dotenv_text :: "(raw \<Rightarrow> string) \<Rightarrow> AppConfig \<Rightarrow> string list" where
  "dotenv_text str_of config = map dotenv_line (dotenv_entries str_of config)"

definition yaml_text :: "(raw \<Rightarrow> string) \<Rightarrow> AppConfig \<Rightarrow> string" where
  "yaml_text yaml_dump config = yaml_dump (RDict (model_dump_json config))"

definition dump_config_to_dotenv :: "(raw \<Rightarrow> string) \<Rightarrow> world \<Rightarrow> pystate
    \<Rightarrow> (pyerr + string list) \<times> pystate" where
  "dump_config_to_dotenv str_of w s =
     (case get_config w s of
        (Inl e, s') \<Rightarrow> (Inl e, s')
      | (Inr r, s') \<Rightarrow> (Inr (dotenv_text str_of (snd r)), s'))"

definition dump_config_to_yaml :: "(raw \<Rightarrow> string) \<Rightarrow> world \<Rightarrow> pystate \<Rightarrow> (pyerr + string) \<times> pystate" where
  "dump_config_to_yaml yaml_dump w s =
     (case get_config w s of
        (Inl e, s') \<Rightarrow> (Inl e, s')
      | (Inr r, s') \<Rightarrow> (Inr (yaml_text yaml_dump (snd r)), s'))"

text \<open>
  A configuration with every secret it holds replaced by one fixed secret; which optional
  secrets are set stays as it is.
\<close>

definition redact_DBConfig :: "DBConfig \<Rightarrow> DBConfig" where
  "redact_DBConfig c = c\<lparr>USERNAME := SecretStr [], PASSWORD := SecretStr []\<rparr>"

definition redact_AWSConfig :: "AWSConfig \<Rightarrow> AWSConfig" where
  "redact_AWSConfig c =
     c\<lparr>AWS_ACCESS_KEY_ID := map_option (\<lambda>s. SecretStr []) (AWS_ACCESS_KEY_ID c),
       AWS_SECRET_ACCESS_KEY := map_option (\<lambda>s. SecretStr []) (AWS_SECRET_ACCESS_KEY c)\<rparr>"

definition redact :: "AppConfig \<Rightarrow> AppConfig" where
  "redact c = c\<lparr>DB := redact_DBConfig (DB c), AWS_CONFIG := redact_AWSConfig (AWS_CONFIG c)\<rparr>"

text \<open>The fields of a configuration that hold plain text, under their flat keys.\<close>

definition plain_string_fields :: "AppConfig \<Rightarrow> (string \<times> string) list" where
  "plain_string_fields c =
     [(''SERVICE_NAME'', SERVICE_NAME c),
      (''DB__DB_NAME'', DB_NAME (DB c)),
      (''DB__SCHEMA_NAMES'', SCHEMA_NAMES (DB c)),
      (''DB__HOST'', HOST (DB c)),
      (''AWS_CONFIG__AWS_DEFAULT_REGION'', AWS_DEFAULT_REGION (AWS_CONFIG c)),
      (''LOOKUP_DATA__DATA_FILE_1'', DATA_FILE_1 (LOOKUP_DATA c)),
      (''LOGGING__LOG_FORMAT'', LOG_FORMAT (LOGGING c)),
      (''LOGGING__LOG_DATE_FORMAT'', LOG_DATE_FORMAT (LOGGING c))]
     @ (case AWS_PROFILE (AWS_CONFIG c) of None \<Rightarrow> [] | Some p \<Rightarrow> [(''AWS_CONFIG__AWS_PROFILE'', p)])"


section \<open>The declared keys\<close>

text \<open>
  The keys the classes of config/models declare (a field's aliases included), and whether a tree
  holds, at any depth, a key that is not among them.
\<close>

datatype shape = Scalar | Section "(string \<times> shape) list"


fun undeclared :: "shape \<Rightarrow> raw \<Rightarrow> bool"
  and undeclared_in :: "(string \<times> shape) list \<Rightarrow> (string \<times> raw) list \<Rightarrow> bool"
where
  "undeclared (Section fs) (RDict d) = undeclared_in fs d"
| "undeclared Scalar (RDict d) = False"
| "undeclared sh RNull = False"
| "undeclared sh (RBool b) = False"
| "undeclared sh (RInt i) = False"
| "undeclared sh (RStr s) = False"
| "undeclared sh (RList xs) = False"
| "undeclared_in fs [] = False"
| "undeclared_in fs ((k, v) # rest) =
     ((case map_of fs k of None \<Rightarrow> True | Some sh \<Rightarrow> undeclared sh v) \<or> undeclared_in fs rest)"


section \<open>A sample run\<close>

text \<open>
  A project directory \<^verbatim>\<open>/app\<close> holding \<^verbatim>\<open>config.yaml\<close>, \<^verbatim>\<open>.env\<close> and \<^verbatim>\<open>pyproject.toml\<close>, no
  secrets directory, and a process environment that sets \<^verbatim>\<open>SERVICE_NAME\<close> and the AWS
  profile.  The YAML file carries a misspelt key inside the \<^verbatim>\<open>DB\<close> section.
\<close>

definition sample_kwargs :: "(string \<times> raw) list" where
  "sample_kwargs =
     [(''SERVICE_NAME'', RStr ''yaml_value''),
      (''DB'', RDict [(''HOSTT'', RStr ''db.internal'')])]"

definition sample_yaml :: raw where
  "sample_yaml = RDict sample_kwargs"

definition sample_world :: world where
  "sample_world =
     \<lparr>project_base_dir = ''/app'',
      path_kind = (\<lambda>p. if p = ''/app/config.yaml'' \<or> p = ''/app/.env'' \<or> p = ''/app/pyproject.toml''
                        then RegularFile else Absent),
      file_open = (\<lambda>p. if p = ''/app/config.yaml'' then Inr ''SERVICE_NAME: yaml_value'' else Inl OSError),
      yaml_load = (\<lambda>text. Inr sample_yaml),
      environ = [(''PATH'', ''/usr/bin''), (''SERVICE_NAME'', ''env_value''),
                 (''AWS_CONFIG__AWS_PROFILE'', ''dev'')],
      dotenv_values = (\<lambda>p. [(''SERVICE_NAME'', ''dotenv_value''), (''DB__PORT'', ''9999'')]),
      secret_files = (\<lambda>p. []),
      expanduser = (\<lambda>p. p),
      resolve = (\<lambda>p. p),
      percent_format_error = (\<lambda>v. None)\<rparr>"

definition fresh_state :: pystate where
  "fresh_state = \<lparr>config_sources = [], next_id = 0, cache = None\<rparr>"

text \<open>The same directory with a \<^verbatim>\<open>config.yaml\<close> that the YAML reader rejects.\<close>

definition broken_yaml_world :: world where
  "broken_yaml_world = sample_world\<lparr>yaml_load := (\<lambda>text. Inl YAMLError)\<rparr>"


text \<open>The configuration the sample run loads, and the same with key authentication.\<close>

definition sample_config :: AppConfig where
  "sample_config =
     \<lparr>SERVICE_NAME = ''env_value'',
      DB = \<lparr>DB_NAME = ''DBNAME'', SCHEMA_NAMES = ''SCHEMA'', USERNAME = SecretStr ''DB_USERNAME'',
            PASSWORD = SecretStr ''DB_PASS'', HOST = ''127.0.0.1'', PORT = 9999,
            PERF = \<lparr>POOL_SIZE = 20, WEB_CONCURRENCY = 5\<rparr>\<rparr>,
      AWS_CONFIG = \<lparr>AWS_PROFILE = Some ''dev'', AWS_ACCESS_KEY_ID = None,
                    AWS_SECRET_ACCESS_KEY = None, AWS_DEFAULT_REGION = ''us-east-1''\<rparr>,
      LOOKUP_DATA = \<lparr>DATA_FILE_1 = ''/app/pyproject.toml''\<rparr>,
      LOGGING = \<lparr>LOG_LEVEL = INFO,
                 LOG_FORMAT = ''%(asctime)s - %(name)s - %(levelname)s - %(message)s'',
                 LOG_DATE_FORMAT = ''%Y-%m-%d %H:%M:%S''\<rparr>\<rparr>"


section \<open>The scalar fields and their keys\<close>









section \<open>Properties of the merger\<close>

lemma map_of_overlay_children:
  "map_of (overlay_children hs ls) k =
     (case map_of hs k of
        None \<Rightarrow> map_of ls k
      | Some h \<Rightarrow> Some (case map_of ls k of None \<Rightarrow> h | Some l \<Rightarrow> overlay h l))"
  by (induction hs) (auto simp: update_conv' split: option.splits)

lemma missing_lookup_None: "missing t p \<Longrightarrow> lookup t p = None"
  by (induction t p rule: missing.induct) (auto split: option.splits)

lemma overlay_leaf [simp]: "is_leaf v \<Longrightarrow> overlay v lo = v"
  by (cases v) auto

lemma lookup_overlay_supplied:
  "lookup hi p = Some v \<Longrightarrow> is_leaf v \<Longrightarrow> lookup (overlay hi lo) p = Some v"
proof (induction p arbitrary: hi lo)
  case Nil
  then show ?case by simp
next
  case (Cons k ks)
  then obtain hs h where hi: "hi = RDict hs" and h: "map_of hs k = Some h"
    and hv: "lookup h ks = Some v"
    by (cases hi) (auto split: option.splits)
  show ?case
  proof (cases lo)
    case (RDict ls)
    show ?thesis
    proof (cases "map_of ls k")
      case None
      with hi h hv RDict show ?thesis by (simp add: map_of_overlay_children)
    next
      case (Some l)
      from Cons.IH [OF hv Cons.prems(2)] have "lookup (overlay h l) ks = Some v" .
      with hi h RDict Some show ?thesis by (simp add: map_of_overlay_children)
    qed
  qed (use hi h hv in auto)
qed

lemma lookup_overlay_missing:
  "missing hi p \<Longrightarrow> lookup (overlay hi lo) p = lookup lo p"
proof (induction p arbitrary: hi lo)
  case Nil
  then show ?case by simp
next
  case (Cons k ks)
  then obtain hs where hi: "hi = RDict hs"
    by (cases hi) auto
  show ?case
  proof (cases lo)
    case (RDict ls)
    show ?thesis
    proof (cases "map_of hs k")
      case None
      with hi RDict show ?thesis by (simp add: map_of_overlay_children)
    next
      case (Some h)
      with Cons.prems hi have mh: "missing h ks" by simp
      show ?thesis
      proof (cases "map_of ls k")
        case None
        with hi RDict Some missing_lookup_None [OF mh] show ?thesis
          by (simp add: map_of_overlay_children)
      next
        case (Some l)
        with hi RDict \<open>map_of hs k = Some h\<close> Cons.IH [OF mh, of l] show ?thesis
          by (simp add: map_of_overlay_children)
      qed
    qed
  qed (use hi Cons.prems missing_lookup_None [OF Cons.prems] in auto)
qed

lemma lookup_foldr_overlay:
  "first_supplier srcs p = Some v \<Longrightarrow> is_leaf v \<Longrightarrow> lookup (foldr overlay srcs base) p = Some v"
proof (induction srcs)
  case Nil
  then show ?case by simp
next
  case (Cons s ss)
  show ?case
  proof (cases "missing s p")
    case True
    with Cons show ?thesis by (simp add: lookup_overlay_missing)
  next
    case False
    with Cons.prems show ?thesis by (simp add: lookup_overlay_supplied)
  qed
qed


section \<open>Properties of the key normalizer\<close>

lemma split_on_nonempty: "split_on sep cur s \<noteq> []"
  by (induction sep cur s rule: split_on.induct) auto

lemma join_Cons: "ys \<noteq> [] \<Longrightarrow> join sep (x # ys) = x @ sep @ join sep ys"
  by (cases ys) auto

lemma join_split_on: "sep \<noteq> [] \<Longrightarrow> join sep (split_on sep cur s) = rev cur @ s"
proof (induction sep cur s rule: split_on.induct)
  case (1 sep cur)
  then show ?case by simp
next
  case (2 sep cur c cs)
  show ?case
  proof (cases "prefix sep (c # cs)")
    case True
    then have eq: "sep @ drop (length sep) (c # cs) = c # cs"
      by (metis append_eq_conv_conj prefix_def)
    from True 2 have "join sep (split_on sep [] (drop (length sep) (c # cs))) = drop (length sep) (c # cs)"
      by simp
    with True 2 eq show ?thesis
      by (simp add: join_Cons split_on_nonempty del: drop_Suc_Cons)
  next
    case False
    with 2 show ?thesis by simp
  qed
qed

lemma lookup_insert_same: "lookup (insert_path p v t) p = Some v"
  by (induction p arbitrary: t) (auto simp: update_conv' Let_def)

lemma lookup_insert_other:
  "\<not> prefix q p \<Longrightarrow> \<not> prefix p q \<Longrightarrow> lookup (insert_path q v t) p = lookup t p"
proof (induction q arbitrary: p t)
  case Nil
  then show ?case by simp
next
  case (Cons k ks)
  then obtain k' ks' where p: "p = k' # ks'" by (cases p) auto
  show ?case
  proof (cases "k' = k")
    case False
    then show ?thesis using p by (cases t) (auto simp: update_conv' Let_def)
  next
    case True
    with Cons.prems p have np: "\<not> prefix ks ks'" "\<not> prefix ks' ks" by auto
    have ks': "ks' \<noteq> []" using np by auto
    then obtain a as where ks'eq: "ks' = a # as" by (cases ks') auto
    show ?thesis
      using True p Cons.IH [OF np] ks'eq
      by (cases t) (auto simp: update_conv' Let_def split: option.splits)
  qed
qed

lemma lookup_unflatten:
  assumes "(k0, v0) \<in> set kvs" and "explode_key cfg k0 = p"
    and "\<forall>(k, v) \<in> set kvs. prefix (explode_key cfg k) p \<or> prefix p (explode_key cfg k)
           \<longrightarrow> explode_key cfg k = p \<and> v = v0"
  shows "lookup (unflatten cfg kvs) p = Some (RStr v0)"
  using assms
proof (induction kvs)
  case Nil
  then show ?case by simp
next
  case (Cons kv kvs)
  obtain k v where kv: "kv = (k, v)" by (cases kv)
  have unf: "unflatten cfg (kv # kvs) = insert_path (explode_key cfg k) (RStr v) (unflatten cfg kvs)"
    by (simp add: unflatten_def kv)
  show ?case
  proof (cases "prefix (explode_key cfg k) p \<or> prefix p (explode_key cfg k)")
    case True
    with Cons.prems(3) kv have "explode_key cfg k = p" "v = v0" by auto
    then show ?thesis by (simp add: unf lookup_insert_same)
  next
    case False
    with Cons.prems(1,2) kv have "(k0, v0) \<in> set kvs" by auto
    with Cons have "lookup (unflatten cfg kvs) p = Some (RStr v0)" by auto
    with False show ?thesis by (simp add: unf lookup_insert_other)
  qed
qed

lemma map_of_filter_key: "P k \<Longrightarrow> map_of (filter (\<lambda>(k', v). P k') d) k = map_of d k"
  by (induction d) auto

lemma lookup_read_flat:
  "k \<in> set top_level_fields \<Longrightarrow> lookup (read_flat cfg kvs) (k # ks) = lookup (unflatten cfg kvs) (k # ks)"
  by (cases "unflatten cfg kvs") (auto simp: read_flat_def map_of_filter_key)


section \<open>Properties of validation\<close>

lemma ap_Inr_iff: "ap f x = Inr y \<longleftrightarrow> (\<exists>g a. f = Inr g \<and> x = Inr a \<and> y = g a)"
  by (cases f; cases x) auto

lemma with_extra_Inr_iff: "with_extra errs r = Inr x \<longleftrightarrow> errs = [] \<and> r = Inr x"
  by (cases r) (auto simp: with_extra_def)

lemma validate_DBConfig_PORT:
  assumes "validate_DBConfig loc dd = Inr x" and "map_of dd ''PORT'' = Some (RStr ''9999'')"
  shows "PORT x = 9999"
proof -
  have "int_of_text ''9999'' = Some 9999" by code_simp
  then have "field dd loc [''PORT''] validate_int = Inr 9999"
    using assms(2) by (simp add: field_def validate_int_def)
  with assms(1) show ?thesis
    by (auto simp: validate_DBConfig_def with_extra_Inr_iff ap_Inr_iff)
qed

lemma validate_AppConfig_DB:
  assumes "validate_AppConfig w cfg d = Inr c"
  shows "\<exists>dd. map_of d ''DB'' = Some (RDict dd) \<and> validate_DBConfig [''DB''] dd = Inr (DB c)"
proof -
  from assms obtain x where x: "field d [] [''DB''] (as_model validate_DBConfig) = Inr x" and "DB c = x"
    by (auto simp: validate_AppConfig_def with_extra_Inr_iff ap_Inr_iff)
  then show ?thesis
    by (auto simp: field_def as_model_def split: option.splits raw.splits)
qed

lemma BaseSettings_init_PORT:
  assumes "BaseSettings_init w cfg kw = Inr c"
    and "lookup (build_values w cfg kw) [''DB'', ''PORT''] = Some (RStr ''9999'')"
  shows "PORT (DB c) = 9999"
proof -
  from assms(1) obtain d where d: "build_values w cfg kw = RDict d"
    and v: "validate_AppConfig w cfg d = Inr c"
    by (auto simp: BaseSettings_init_def as_model_def split: raw.splits sum.splits)
  from validate_AppConfig_DB [OF v] obtain dd where dd: "map_of d ''DB'' = Some (RDict dd)"
    and vd: "validate_DBConfig [''DB''] dd = Inr (DB c)" by blast
  from assms(2) d dd have "map_of dd ''PORT'' = Some (RStr ''9999'')"
    by (auto split: option.splits)
  with vd show ?thesis by (rule validate_DBConfig_PORT)
qed

lemma key_of_exploded:
  "env_nested_delimiter cfg \<noteq> [] \<Longrightarrow> k = join (env_nested_delimiter cfg) (explode_key cfg k)"
  by (simp add: explode_key_def join_split_on)

lemma explode_key_nonempty: "explode_key cfg k \<noteq> []"
  by (simp add: explode_key_def split_on_nonempty)

lemma prefix_two: "prefix q [a, b] \<longleftrightarrow> q = [] \<or> q = [a] \<or> q = [a, b]"
  by (cases q; cases "tl q") (auto)

lemma dotenv_overlap:
  assumes delim: "env_nested_delimiter cfg = ''__''"
    and ov: "prefix (explode_key cfg k) [''DB'', ''PORT''] \<or> prefix [''DB'', ''PORT''] (explode_key cfg k)"
    and k: "k \<noteq> ''DB''" "\<not> startswith k ''DB__PORT__''"
  shows "explode_key cfg k = [''DB'', ''PORT''] \<and> k = ''DB__PORT''"
proof -
  let ?q = "explode_key cfg k"
  have keq: "k = join ''__'' ?q" using key_of_exploded [of cfg k] delim by simp
  have ne: "?q \<noteq> []" by (rule explode_key_nonempty)
  from ov show ?thesis
  proof
    assume "prefix ?q [''DB'', ''PORT'']"
    with ne have "?q = [''DB''] \<or> ?q = [''DB'', ''PORT'']" by (simp add: prefix_two)
    then show ?thesis
    proof
      assume "?q = [''DB'']"
      with keq have "k = ''DB''" by simp
      with k show ?thesis by simp
    next
      assume q: "?q = [''DB'', ''PORT'']"
      with keq have "k = ''DB__PORT''" by simp
      with q show ?thesis by simp
    qed
  next
    assume "prefix [''DB'', ''PORT''] ?q"
    then obtain r where q: "?q = ''DB'' # ''PORT'' # r" by (auto simp: prefix_def)
    show ?thesis
    proof (cases r)
      case Nil
      with q keq have "k = ''DB__PORT''" by simp
      with q Nil show ?thesis by simp
    next
      case (Cons a as)
      with q keq have "k = ''DB__PORT__'' @ join ''__'' (a # as)" by simp
      then have "startswith k ''DB__PORT__''" by (simp add: startswith_def)
      with k show ?thesis by simp
    qed
  qed
qed

lemma lookup_Some_not_missing: "lookup t p = Some v \<Longrightarrow> \<not> missing t p"
  using missing_lookup_None by fastforce

lemma dotenv_settings_default:
  "dotenv_settings w (DEFAULT_CONFIG_SETTINGS w) =
     unflatten (DEFAULT_CONFIG_SETTINGS w) (if is_file w (PATH_ENV w) then dotenv_values w (PATH_ENV w) else [])"
  by (simp add: dotenv_settings_def DEFAULT_CONFIG_SETTINGS_def env_files_def)

lemma get_config_body_Inr:
  assumes "fst (get_config_body w s) = Inr (i, c)"
  shows "\<exists>kw. BaseSettings_init w (DEFAULT_CONFIG_SETTINGS w) kw = Inr c"
  using assms
  by (auto simp: get_config_body_def BaseConfigModel_init_def Let_def
           split: prod.splits raw.splits sum.splits if_splits)



lemma build_values_empty_kwargs:
  "build_values w cfg [] =
     merge_sources [file_secret_settings w cfg, env_settings w cfg, dotenv_settings w cfg, schema_defaults]"
  by (simp add: build_values_def merge_sources_def settings_customise_sources_def schema_defaults_def)

lemma next_id_track_env_files: "next_id (track_env_files w fs s) = next_id s"
  by (induction fs arbitrary: s) (auto simp: track_config_source_def)

lemma next_id_track_all_sources: "next_id (track_all_sources w cfg s) = next_id s"
  by (simp add: track_all_sources_def Let_def next_id_track_env_files track_config_source_def)

lemma config_sources_track_env_files:
  "config_sources (track_env_files w fs s) =
     config_sources s @ map (\<lambda>f. \<lparr>source_type = ''dotenv'', path = f,
        available = (path_exists w f \<and> is_file w f), description = ''Dotenv file: '' @ f\<rparr>) fs"
  by (induction fs arbitrary: s) (auto simp: track_config_source_def)

lemma config_sources_track_all_sources:
  "config_sources (track_all_sources w (DEFAULT_CONFIG_SETTINGS w) s) =
     config_sources s @
     [\<lparr>source_type = ''secrets'', path = ''/run/secrets'',
       available = is_dir w ''/run/secrets'',
       description = ''Docker secrets directory: /run/secrets''\<rparr>,
      \<lparr>source_type = ''environment'', path = ''system environment'', available = True,
       description = ''System environment variables''\<rparr>,
      \<lparr>source_type = ''dotenv'', path = PATH_ENV w, available = is_file w (PATH_ENV w),
       description = ''Dotenv file: '' @ PATH_ENV w\<rparr>]"
  by (auto simp: track_all_sources_def Let_def config_sources_track_env_files track_config_source_def
        DEFAULT_CONFIG_SETTINGS_def secrets_dir_path_def env_files_def is_dir_def is_file_def
        path_exists_def)

lemma config_sources_load_config_yaml:
  "config_sources (snd (load_config_yaml w filename s)) =
     config_sources s @
     [\<lparr>source_type = ''yaml'', path = path_join (project_base_dir w) filename,
       available = is_file w (path_join (project_base_dir w) filename),
       description = ''YAML configuration file: '' @ filename\<rparr>]"
  by (auto simp: load_config_yaml_def Let_def track_config_source_def is_file_def path_exists_def
           split: sum.splits)

lemma config_sources_BaseConfigModel_init:
  "config_sources (snd (BaseConfigModel_init w kw s)) =
     config_sources (track_all_sources w (DEFAULT_CONFIG_SETTINGS w) s)"
  by (simp add: BaseConfigModel_init_def Let_def split: sum.splits)

lemma fst_BaseConfigModel_init_not_TypeError: "fst (BaseConfigModel_init w kw s) \<noteq> Inl TypeError"
  by (simp add: BaseConfigModel_init_def BaseSettings_init_def Let_def split: sum.splits)

lemma config_sources_get_config_body:
  assumes "fst (get_config_body w s) \<noteq> Inl TypeError"
  shows "config_sources (snd (get_config_body w s)) =
     [\<lparr>source_type = ''yaml'', path = path_join (project_base_dir w) ''config.yaml'',
       available = is_file w (path_join (project_base_dir w) ''config.yaml''),
       description = ''YAML configuration file: config.yaml''\<rparr>,
      \<lparr>source_type = ''secrets'', path = ''/run/secrets'',
       available = is_dir w ''/run/secrets'',
       description = ''Docker secrets directory: /run/secrets''\<rparr>,
      \<lparr>source_type = ''environment'', path = ''system environment'', available = True,
       description = ''System environment variables''\<rparr>,
      \<lparr>source_type = ''dotenv'', path = PATH_ENV w, available = is_file w (PATH_ENV w),
       description = ''Dotenv file: '' @ PATH_ENV w\<rparr>]"
proof -
  obtain y s2 where l: "load_config_yaml w ''config.yaml'' (clear_config_sources s) = (y, s2)"
    by (cases "load_config_yaml w ''config.yaml'' (clear_config_sources s)")
  have s2: "config_sources s2 =
     [\<lparr>source_type = ''yaml'', path = path_join (project_base_dir w) ''config.yaml'',
       available = is_file w (path_join (project_base_dir w) ''config.yaml''),
       description = ''YAML configuration file: config.yaml''\<rparr>]"
    using config_sources_load_config_yaml [of w "''config.yaml''" "clear_config_sources s"] l
    by (simp add: clear_config_sources_def)
  from assms l obtain kw where
    b: "get_config_body w s = BaseConfigModel_init w kw s2"
    by (auto simp: get_config_body_def Let_def split: raw.splits if_splits)
  show ?thesis
    by (simp add: b config_sources_BaseConfigModel_init config_sources_track_all_sources s2)
qed


lemma overlay_keeps_key:
  "map_of ls k \<noteq> None \<Longrightarrow> \<exists>d. overlay (RDict hs) (RDict ls) = RDict d \<and> map_of d k \<noteq> None"
  by (auto simp: map_of_overlay_children split: option.splits)






lemma source_keeps_key:
  assumes "map_of ls k \<noteq> None" and "\<exists>hs. src = RDict hs"
  shows "\<exists>d. overlay src (RDict ls) = RDict d \<and> map_of d k \<noteq> None"
  using overlay_keeps_key [OF assms(1)] assms(2) by auto




lemma overlay_RDict: "\<exists>d. overlay (RDict hs) lo = RDict d"
  by (cases lo) auto









lemma validate_int_loc: "validate_int loc v = Inr x \<Longrightarrow> validate_int loc' v = Inr x"
  by (auto simp: validate_int_def split: raw.splits option.splits)







lemma field_single:
  "field d loc [n] val = Inr x \<Longrightarrow> map_of d n = Some v \<Longrightarrow> val (loc @ [n]) v = Inr x"
  by (simp add: field_def)











lemma first_supplier_append:
  "first_supplier srcs p = Some v \<Longrightarrow> first_supplier (srcs @ rest) p = Some v"
  by (induction srcs) (auto dest: missing_lookup_None)







section \<open>The claims\<close>




text \<open>
  C3.  A call of \<open>get_config\<close> that returns a configuration object leaves a state in which the
  next call (nothing clearing the cache in between) returns the very same object, number and
  contents, and changes nothing.
\<close>

theorem get_config_returns_cached_object:
  "get_config w s = (Inr r, s') \<Longrightarrow> get_config w s' = (Inr r, s')"
  by (auto simp: get_config_def split: option.splits prod.splits sum.splits)

theorem get_config_returns_cached_object_witness:
  "get_config sample_world fresh_state =
     (Inr (0, sample_config), snd (get_config sample_world fresh_state))
   \<and> get_config sample_world (snd (get_config sample_world fresh_state)) =
     (Inr (0, sample_config), snd (get_config sample_world fresh_state))"
proof -
  have "fst (get_config sample_world fresh_state) = Inr (0, sample_config)" by code_simp
  then have 1: "get_config sample_world fresh_state =
      (Inr (0, sample_config), snd (get_config sample_world fresh_state))"
    by (simp add: prod_eq_iff)
  show ?thesis
    by (intro conjI 1 get_config_returns_cached_object [OF 1])
qed

text \<open>
  C4.  When \<^verbatim>\<open>config.yaml\<close> exists and reading or parsing it raises, \<open>load_config_yaml\<close>
  returns \<^verbatim>\<open>None\<close> and the load goes on with no keyword arguments: its outcome is the
  validation of the merge of the secrets directory, the environment, the dotenv file and the
  schema defaults, whatever the file holds.
\<close>

theorem unparsable_yaml_contributes_nothing:
  assumes "path_exists w (path_join (project_base_dir w) ''config.yaml'')"
    and "parse_yaml_file_as_dict w (path_join (project_base_dir w) ''config.yaml'') = Inl e"
  shows "fst (load_config_yaml w ''config.yaml'' s) = RNull
     \<and> fst (get_config_body w s) =
         (case as_model (\<lambda>loc. validate_AppConfig w (DEFAULT_CONFIG_SETTINGS w)) []
                 (merge_sources [file_secret_settings w (DEFAULT_CONFIG_SETTINGS w),
                                 env_settings w (DEFAULT_CONFIG_SETTINGS w),
                                 dotenv_settings w (DEFAULT_CONFIG_SETTINGS w), schema_defaults]) of
            Inl errs \<Rightarrow> Inl (ValidationError errs)
          | Inr c \<Rightarrow> Inr (next_id s, c))"
proof -
  have l: "load_config_yaml w ''config.yaml'' (clear_config_sources s) =
        (RNull, track_config_source ''yaml'' (path_join (project_base_dir w) ''config.yaml'')
           (path_exists w (path_join (project_base_dir w) ''config.yaml'')
            \<and> is_file w (path_join (project_base_dir w) ''config.yaml''))
           ''YAML configuration file: config.yaml'' (clear_config_sources s))"
    using assms by (simp add: load_config_yaml_def Let_def)
  have n: "next_id (track_all_sources w cfg (track_config_source a b c d (clear_config_sources s))) = next_id s"
    for cfg a b c d
    by (simp add: next_id_track_all_sources track_config_source_def clear_config_sources_def)
  have "fst (load_config_yaml w ''config.yaml'' s) = RNull"
    using assms by (simp add: load_config_yaml_def Let_def)
  moreover have "fst (get_config_body w s) =
         (case BaseSettings_init w (DEFAULT_CONFIG_SETTINGS w) [] of
            Inl err \<Rightarrow> Inl err | Inr c \<Rightarrow> Inr (next_id s, c))"
    by (simp add: get_config_body_def Let_def l BaseConfigModel_init_def n split: sum.splits)
  ultimately show ?thesis
    by (simp add: BaseSettings_init_def build_values_empty_kwargs split: sum.splits)
qed

theorem unparsable_yaml_contributes_nothing_witness:
  "path_exists broken_yaml_world (path_join (project_base_dir broken_yaml_world) ''config.yaml'')
   \<and> parse_yaml_file_as_dict broken_yaml_world
        (path_join (project_base_dir broken_yaml_world) ''config.yaml'') = Inl YAMLError
   \<and> fst (load_config_yaml broken_yaml_world ''config.yaml'' fresh_state) = RNull
   \<and> fst (get_config_body broken_yaml_world fresh_state) = Inr (0, sample_config)"
proof -
  have 1: "path_exists broken_yaml_world (path_join (project_base_dir broken_yaml_world) ''config.yaml'')"
    by code_simp
  have 2: "parse_yaml_file_as_dict broken_yaml_world
        (path_join (project_base_dir broken_yaml_world) ''config.yaml'') = Inl YAMLError"
    by code_simp
  have 3: "as_model (\<lambda>loc. validate_AppConfig broken_yaml_world (DEFAULT_CONFIG_SETTINGS broken_yaml_world)) []
                 (merge_sources [file_secret_settings broken_yaml_world (DEFAULT_CONFIG_SETTINGS broken_yaml_world),
                                 env_settings broken_yaml_world (DEFAULT_CONFIG_SETTINGS broken_yaml_world),
                                 dotenv_settings broken_yaml_world (DEFAULT_CONFIG_SETTINGS broken_yaml_world),
                                 schema_defaults]) = Inr sample_config"
    by code_simp
  have 4: "next_id fresh_state = 0" by (simp add: fresh_state_def)
  from unparsable_yaml_contributes_nothing [OF 1 2, of fresh_state] 1 2 show ?thesis
    by (simp only: 3 4 sum.case simp_thms)
qed




text \<open>
  C7.  When the dotenv file sets the flat key \<^verbatim>\<open>DB__PORT\<close> to the text \<^verbatim>\<open>9999\<close> (once, and
  with no key \<^verbatim>\<open>DB\<close> or \<^verbatim>\<open>DB__PORT__...\<close> beside it) and neither the secrets directory nor the
  environment says anything about \<^verbatim>\<open>DB.PORT\<close>, every configuration that the load returns has
  the integer 9999 in \<^verbatim>\<open>DB.PORT\<close>.
\<close>

theorem dotenv_nested_port:
  assumes isf: "is_file w (PATH_ENV w)"
    and entry: "(''DB__PORT'', ''9999'') \<in> set (dotenv_values w (PATH_ENV w))"
    and once: "\<forall>(k, v) \<in> set (dotenv_values w (PATH_ENV w)). k = ''DB__PORT'' \<longrightarrow> v = ''9999''"
    and clash: "\<forall>(k, v) \<in> set (dotenv_values w (PATH_ENV w)). k \<noteq> ''DB'' \<and> \<not> startswith k ''DB__PORT__''"
    and sec: "missing (file_secret_settings w (DEFAULT_CONFIG_SETTINGS w)) [''DB'', ''PORT'']"
    and env: "missing (env_settings w (DEFAULT_CONFIG_SETTINGS w)) [''DB'', ''PORT'']"
    and load: "fst (get_config_body w s) = Inr (i, c)"
  shows "PORT (DB c) = 9999"
proof -
  let ?cfg = "DEFAULT_CONFIG_SETTINGS w"
  let ?dv = "dotenv_values w (PATH_ENV w)"
  have delim: "env_nested_delimiter ?cfg = ''__''" by (simp add: DEFAULT_CONFIG_SETTINGS_def)
  have ex: "explode_key ?cfg ''DB__PORT'' = [''DB'', ''PORT'']"
    by (simp add: explode_key_def delim)
  have "\<forall>(k, v) \<in> set ?dv.
          prefix (explode_key ?cfg k) [''DB'', ''PORT''] \<or> prefix [''DB'', ''PORT''] (explode_key ?cfg k)
          \<longrightarrow> explode_key ?cfg k = [''DB'', ''PORT''] \<and> v = ''9999''"
    using once clash dotenv_overlap [OF delim] by fastforce
  with entry ex have "lookup (unflatten ?cfg ?dv) [''DB'', ''PORT''] = Some (RStr ''9999'')"
    by (rule lookup_unflatten)
  then have dot: "lookup (dotenv_settings w ?cfg) [''DB'', ''PORT''] = Some (RStr ''9999'')"
    using isf by (simp add: dotenv_settings_default)
  from load obtain kw where kw: "BaseSettings_init w ?cfg kw = Inr c"
    using get_config_body_Inr by blast
  have "first_supplier [file_secret_settings w ?cfg, env_settings w ?cfg, dotenv_settings w ?cfg,
          RDict kw, schema_defaults] [''DB'', ''PORT''] = Some (RStr ''9999'')"
    using sec env dot lookup_Some_not_missing [OF dot] by simp
  then have "lookup (build_values w ?cfg kw) [''DB'', ''PORT''] = Some (RStr ''9999'')"
    unfolding build_values_def merge_sources_def settings_customise_sources_def append.simps
    by (rule lookup_foldr_overlay) simp
  with kw show ?thesis by (rule BaseSettings_init_PORT)
qed

theorem dotenv_nested_port_witness:
  "is_file sample_world (PATH_ENV sample_world)
   \<and> (''DB__PORT'', ''9999'') \<in> set (dotenv_values sample_world (PATH_ENV sample_world))
   \<and> fst (get_config_body sample_world fresh_state) = Inr (0, sample_config)
   \<and> PORT (DB sample_config) = 9999"
proof -
  have 1: "is_file sample_world (PATH_ENV sample_world)" by code_simp
  have 2: "(''DB__PORT'', ''9999'') \<in> set (dotenv_values sample_world (PATH_ENV sample_world))"
    by code_simp
  have 3: "\<forall>(k, v) \<in> set (dotenv_values sample_world (PATH_ENV sample_world)).
             k = ''DB__PORT'' \<longrightarrow> v = ''9999''" by code_simp
  have 4: "\<forall>(k, v) \<in> set (dotenv_values sample_world (PATH_ENV sample_world)).
             k \<noteq> ''DB'' \<and> \<not> startswith k ''DB__PORT__''" by code_simp
  have 5: "missing (file_secret_settings sample_world (DEFAULT_CONFIG_SETTINGS sample_world)) [''DB'', ''PORT'']"
    by code_simp
  have 6: "missing (env_settings sample_world (DEFAULT_CONFIG_SETTINGS sample_world)) [''DB'', ''PORT'']"
    by code_simp
  have 7: "fst (get_config_body sample_world fresh_state) = Inr (0, sample_config)" by code_simp
  from dotenv_nested_port [OF 1 2 3 4 5 6 7] 1 2 7 show ?thesis by simp
qed

text \<open>
  The sample run loads a configuration and records the YAML file first, before the secrets
  directory, the environment and the dotenv file: the order of C9 as the specification states
  it is not the recorded one.
\<close>

theorem recorded_sources_yaml_first_cex:
  "fst (get_config sample_world fresh_state) = Inr (0, sample_config)
   \<and> map source_type (get_config_sources (snd (get_config sample_world fresh_state))) =
       [''yaml'', ''secrets'', ''environment'', ''dotenv'']
   \<and> map source_type (get_config_sources (snd (get_config sample_world fresh_state))) \<noteq>
       [''secrets'', ''environment'', ''dotenv'', ''yaml'']"
  by code_simp

text \<open>
  C9.  After a load that starts with an empty cache and reaches the constructor of the
  configuration, the recorded sources are four records, one per probed source, in the order in
  which they are probed: the YAML file (tracked by \<open>load_config_yaml\<close>), then the secrets
  directory, the environment and the dotenv file (tracked by the constructor).  The YAML and
  dotenv records are available exactly when the path is a regular file, the secrets record
  exactly when the path is a directory, the environment record always.
\<close>

theorem recorded_sources_after_load:
  assumes "cache s = None" and "fst (get_config w s) \<noteq> Inl TypeError"
  shows "get_config_sources (snd (get_config w s)) =
     [\<lparr>source_type = ''yaml'', path = path_join (project_base_dir w) ''config.yaml'',
       available = is_file w (path_join (project_base_dir w) ''config.yaml''),
       description = ''YAML configuration file: config.yaml''\<rparr>,
      \<lparr>source_type = ''secrets'', path = ''/run/secrets'',
       available = is_dir w ''/run/secrets'',
       description = ''Docker secrets directory: /run/secrets''\<rparr>,
      \<lparr>source_type = ''environment'', path = ''system environment'', available = True,
       description = ''System environment variables''\<rparr>,
      \<lparr>source_type = ''dotenv'', path = PATH_ENV w, available = is_file w (PATH_ENV w),
       description = ''Dotenv file: '' @ PATH_ENV w\<rparr>]"
proof -
  obtain r s' where b: "get_config_body w s = (r, s')" by (cases "get_config_body w s")
  from assms b have "r \<noteq> Inl TypeError"
    by (auto simp: get_config_def split: sum.splits)
  with b have "fst (get_config_body w s) \<noteq> Inl TypeError" by simp
  from config_sources_get_config_body [OF this] b assms(1) show ?thesis
    by (auto simp: get_config_def get_config_sources_def split: sum.splits)
qed

theorem recorded_sources_after_load_witness:
  "cache fresh_state = None
   \<and> fst (get_config sample_world fresh_state) \<noteq> Inl TypeError
   \<and> get_config_sources (snd (get_config sample_world fresh_state)) =
     [\<lparr>source_type = ''yaml'', path = ''/app/config.yaml'', available = True,
       description = ''YAML configuration file: config.yaml''\<rparr>,
      \<lparr>source_type = ''secrets'', path = ''/run/secrets'', available = False,
       description = ''Docker secrets directory: /run/secrets''\<rparr>,
      \<lparr>source_type = ''environment'', path = ''system environment'', available = True,
       description = ''System environment variables''\<rparr>,
      \<lparr>source_type = ''dotenv'', path = ''/app/.env'', available = True,
       description = ''Dotenv file: /app/.env''\<rparr>]"
proof -
  have 1: "cache fresh_state = None" by (simp add: fresh_state_def)
  have 2: "fst (get_config sample_world fresh_state) \<noteq> Inl TypeError" by code_simp
  have 3: "path_join (project_base_dir sample_world) ''config.yaml'' = ''/app/config.yaml''" by code_simp
  have 4: "is_file sample_world ''/app/config.yaml'' = True" by code_simp
  have 5: "is_dir sample_world ''/run/secrets'' = False" by code_simp
  have 6: "PATH_ENV sample_world = ''/app/.env''" by code_simp
  have 7: "is_file sample_world ''/app/.env'' = True" by code_simp
  from recorded_sources_after_load [OF 1 2] 1 2 show ?thesis
    by (simp only: 3 4 5 6 7 append.simps simp_thms)
qed

end
